theory Spec2Isabelle
  imports Complex_Main "HOL-Library.Word" "HOL-Library.Multiset"
begin

section \<open>JavaScript values used by the pipeline\<close>

text \<open>
  A JavaScript Number is modelled by \<open>jsnum\<close>: the three non-finite values and the finite
  ones, the latter carried as exact rationals. Binary rounding, overflow to an infinity
  and the sign of zero are abstracted (\<open>Fin 0\<close> stands for \<open>+0\<close>); everything below
  depends only on the order of numbers, on division by zero and on \<open>NaN\<close>.
\<close>

datatype jsnum = NaN | PInf | NInf | Fin rat

fun js_neg :: "jsnum \<Rightarrow> jsnum" where
  "js_neg NaN = NaN"
| "js_neg PInf = NInf"
| "js_neg NInf = PInf"
| "js_neg (Fin a) = Fin (- a)"

fun js_add :: "jsnum \<Rightarrow> jsnum \<Rightarrow> jsnum" where
  "js_add (Fin a) (Fin b) = Fin (a + b)"
| "js_add NaN y = NaN"
| "js_add x NaN = NaN"
| "js_add PInf NInf = NaN"
| "js_add NInf PInf = NaN"
| "js_add PInf y = PInf"
| "js_add NInf y = NInf"
| "js_add x PInf = PInf"
| "js_add x NInf = NInf"

definition js_sub :: "jsnum \<Rightarrow> jsnum \<Rightarrow> jsnum" where
  "js_sub x y = js_add x (js_neg y)"

text \<open>\<open>x < y\<close> on Numbers: false as soon as one side is \<open>NaN\<close>.\<close>

fun js_lt :: "jsnum \<Rightarrow> jsnum \<Rightarrow> bool" where
  "js_lt (Fin a) (Fin b) = (a < b)"
| "js_lt NaN y = False"
| "js_lt x NaN = False"
| "js_lt x NInf = False"
| "js_lt PInf y = False"
| "js_lt NInf y = True"
| "js_lt x PInf = True"

definition js_gt :: "jsnum \<Rightarrow> jsnum \<Rightarrow> bool" where
  "js_gt x y = js_lt y x"

fun js_mul :: "jsnum \<Rightarrow> jsnum \<Rightarrow> jsnum" where
  "js_mul (Fin a) (Fin b) = Fin (a * b)"
| "js_mul NaN y = NaN"
| "js_mul x NaN = NaN"
| "js_mul PInf y = (if js_lt (Fin 0) y then PInf else if js_lt y (Fin 0) then NInf else NaN)"
| "js_mul NInf y = (if js_lt (Fin 0) y then NInf else if js_lt y (Fin 0) then PInf else NaN)"
| "js_mul x PInf = (if js_lt (Fin 0) x then PInf else if js_lt x (Fin 0) then NInf else NaN)"
| "js_mul x NInf = (if js_lt (Fin 0) x then NInf else if js_lt x (Fin 0) then PInf else NaN)"

fun js_div :: "jsnum \<Rightarrow> jsnum \<Rightarrow> jsnum" where
  "js_div (Fin a) (Fin b) =
     (if b = 0 then (if a = 0 then NaN else if 0 < a then PInf else NInf) else Fin (a / b))"
| "js_div NaN y = NaN"
| "js_div x NaN = NaN"
| "js_div (Fin a) y = Fin 0"
| "js_div PInf (Fin b) = (if b < 0 then NInf else PInf)"
| "js_div NInf (Fin b) = (if b < 0 then PInf else NInf)"
| "js_div x y = NaN"

text \<open>
  Truthiness of a Number: every Number except \<open>0\<close> and \<open>NaN\<close>.
\<close>

fun truthy :: "jsnum \<Rightarrow> bool" where
  "truthy NaN = False"
| "truthy (Fin a) = (a \<noteq> 0)"
| "truthy x = True"

text \<open>
  \<open>x.toFixed(d)\<close> prints the decimal \<open>n / 10^d\<close> with \<open>n\<close> the integer nearest to
  \<open>|x| * 10^d\<close> (the larger one at a tie), with the sign of \<open>x\<close> in front; a Number that
  is not finite, or of magnitude \<open>10^21\<close> and more, is printed by \<open>String(x)\<close>. The model
  returns the Number that the printed string denotes.
\<close>

definition toFixed :: "jsnum \<Rightarrow> nat \<Rightarrow> jsnum" where
  "toFixed x d =
     (case x of
        Fin r \<Rightarrow>
          if 10 ^ 21 \<le> \<bar>r\<bar> then Fin r
          else Fin (sgn r * of_int \<lfloor>\<bar>r\<bar> * 10 ^ d + 1 / 2\<rfloor> / 10 ^ d)
      | _ \<Rightarrow> x)"

text \<open>\<open>Math.round\<close>: the nearest integer, the larger one at a tie.\<close>

definition Math_round :: "jsnum \<Rightarrow> jsnum" where
  "Math_round x = (case x of Fin r \<Rightarrow> Fin (of_int \<lfloor>r + 1 / 2\<rfloor>) | _ \<Rightarrow> x)"

section \<open>Strings\<close>

text \<open>
  A JavaScript string is a sequence of 16-bit code units. \<open>js\<close> writes an ASCII literal
  of the source as such a sequence.
\<close>

type_synonym jsstring = "16 word list"

definition js :: "string \<Rightarrow> jsstring" where
  "js s = map of_char s"

definition is_digit :: "16 word \<Rightarrow> bool" where
  "is_digit c = (0x30 \<le> c \<and> c \<le> 0x39)"

text \<open>The code units that \<open>parseFloat\<close> skips in front: WhiteSpace and LineTerminator.\<close>

definition is_space :: "16 word \<Rightarrow> bool" where
  "is_space c =
     (c \<in> {0x09, 0x0A, 0x0B, 0x0C, 0x0D, 0x20, 0xA0, 0x1680, 0x2028, 0x2029, 0x202F,
            0x205F, 0x3000, 0xFEFF}
      \<or> (0x2000 \<le> c \<and> c \<le> 0x200A))"

definition digits_val :: "jsstring \<Rightarrow> nat" where
  "digits_val ds = foldl (\<lambda>n c. 10 * n + (unat c - 48)) 0 ds"

text \<open>
  An optional sign in front of a literal: whether it is a minus, and what follows it.
\<close>

fun sign_and_rest :: "jsstring \<Rightarrow> bool \<times> jsstring" where
  "sign_and_rest [] = (False, [])"
| "sign_and_rest (c # r) =
     (if c = 0x2D then (True, r) else if c = 0x2B then (False, r) else (False, c # r))"

text \<open>
  The factor of an ExponentPart (\<open>e\<close> or \<open>E\<close>, an optional sign, at least one digit) in
  front of a string; \<open>1\<close> when the string does not start with a complete one.
\<close>

fun exponent_part :: "jsstring \<Rightarrow> rat" where
  "exponent_part [] = 1"
| "exponent_part (c # r) =
     (if c = 0x65 \<or> c = 0x45 then
        (let (minus, d) = sign_and_rest r; ds = takeWhile is_digit d
         in if ds = [] then 1
            else if minus then 1 / 10 ^ digits_val ds else 10 ^ digits_val ds)
      else 1)"

text \<open>
  The value of the longest prefix that is a StrUnsignedDecimalLiteral:
  \<open>Infinity\<close>, or digits with an optional fraction and exponent, or a fraction that starts
  with the point. \<open>None\<close> when no prefix is one.
\<close>

definition unsigned_literal :: "jsstring \<Rightarrow> jsnum option" where
  "unsigned_literal u =
     (if take 8 u = js ''Infinity'' then Some PInf
      else
        let ip = takeWhile is_digit u;
            r1 = dropWhile is_digit u;
            (fp, r2) = (case r1 of
                          [] \<Rightarrow> ([], [])
                        | c # r \<Rightarrow> if c = 0x2E then (takeWhile is_digit r, dropWhile is_digit r)
                                   else ([], r1))
        in if ip = [] \<and> fp = [] then None
           else Some (Fin ((of_nat (digits_val ip) + of_nat (digits_val fp) / 10 ^ length fp)
                           * exponent_part r2)))"

text \<open>\<open>parseFloat\<close> of a string: \<open>NaN\<close> when the trimmed string starts with no literal.\<close>

definition parseFloat :: "jsstring \<Rightarrow> jsnum" where
  "parseFloat s =
     (let (minus, u) = sign_and_rest (dropWhile is_space s)
      in case unsigned_literal u of
           None \<Rightarrow> NaN
         | Some v \<Rightarrow> if minus then js_neg v else v)"

subsection \<open>encodeURIComponent\<close>

datatype js_error = URIError | TypeError

definition unreserved :: "16 word \<Rightarrow> bool" where
  "unreserved c =
     ((0x41 \<le> c \<and> c \<le> 0x5A) \<or> (0x61 \<le> c \<and> c \<le> 0x7A) \<or> is_digit c
      \<or> c \<in> {0x2D, 0x5F, 0x2E, 0x21, 0x7E, 0x2A, 0x27, 0x28, 0x29})"

definition hex_digit :: "nat \<Rightarrow> 16 word" where
  "hex_digit n = (if n < 10 then of_nat (48 + n) else of_nat (55 + n))"

definition percent :: "nat \<Rightarrow> jsstring" where
  "percent b = [0x25, hex_digit (b div 16), hex_digit (b mod 16)]"

definition utf8 :: "nat \<Rightarrow> nat list" where
  "utf8 n =
     (if n < 0x80 then [n]
      else if n < 0x800 then [0xC0 + n div 64, 0x80 + n mod 64]
      else if n < 0x10000 then [0xE0 + n div 4096, 0x80 + n div 64 mod 64, 0x80 + n mod 64]
      else [0xF0 + n div 262144, 0x80 + n div 4096 mod 64, 0x80 + n div 64 mod 64,
            0x80 + n mod 64])"

definition escape :: "nat \<Rightarrow> jsstring" where
  "escape n = concat (map percent (utf8 n))"

text \<open>
  Unreserved code units are kept; any other code point is written as the escaped bytes of
  its UTF-8 form. A surrogate that is not part of a pair raises \<open>URIError\<close>.
\<close>

fun encodeURIComponent :: "jsstring \<Rightarrow> js_error + jsstring" where
  "encodeURIComponent [] = Inr []"
| "encodeURIComponent [c] =
     (if unreserved c then Inr [c]
      else if 0xD800 \<le> c \<and> c \<le> 0xDFFF then Inl URIError
      else Inr (escape (unat c)))"
| "encodeURIComponent (c # d # r) =
     (if unreserved c then map_sum id ((#) c) (encodeURIComponent (d # r))
      else if c < 0xD800 \<or> 0xDFFF < c then
        map_sum id ((@) (escape (unat c))) (encodeURIComponent (d # r))
      else if 0xDC00 \<le> c then Inl URIError
      else if 0xDC00 \<le> d \<and> d \<le> 0xDFFF then
        map_sum id ((@) (escape ((unat c - 0xD800) * 0x400 + (unat d - 0xDC00) + 0x10000)))
          (encodeURIComponent r)
      else Inl URIError)"

section \<open>Margin Calculator\<close>

record margins =
  sellingPrice :: jsnum
  supplierPrice :: jsnum
  shippingCost :: jsnum
  adCost :: jsnum
  platformFees :: jsnum
  totalCost :: jsnum
  profit :: jsnum
  profitMargin :: jsnum

definition calculateMargins :: "jsnum \<Rightarrow> margins" where
  "calculateMargins tiktokPrice =
     (let supplierPrice = js_mul tiktokPrice (Fin (3 / 10));
          shippingCost = Fin 5;
          adCost = js_mul tiktokPrice (Fin (25 / 100));
          platformFees = js_mul tiktokPrice (Fin (15 / 100));
          totalCost = js_add (js_add (js_add supplierPrice shippingCost) adCost) platformFees;
          profit = js_sub tiktokPrice totalCost;
          profitMargin = js_mul (js_div profit tiktokPrice) (Fin 100)
      in \<lparr> sellingPrice = tiktokPrice,
           supplierPrice = toFixed supplierPrice 2,
           shippingCost = toFixed shippingCost 2,
           adCost = toFixed adCost 2,
           platformFees = toFixed platformFees 2,
           totalCost = toFixed totalCost 2,
           profit = toFixed profit 2,
           profitMargin = toFixed profitMargin 1 \<rparr>)"

section \<open>Sourcing catalogue\<close>

record sourcing_option =
  supplier :: jsstring
  url :: jsstring
  avgPrice :: jsstring
  shippingTime :: jsstring
  reliability :: jsstring

text \<open>
  The three template literals are evaluated in order, each calling
  \<open>encodeURIComponent\<close> on the product name; the first error is thrown.
\<close>

definition getSourcingRecommendations :: "jsstring \<Rightarrow> js_error + sourcing_option list" where
  "getSourcingRecommendations productName =
     (case encodeURIComponent productName of
        Inl e \<Rightarrow> Inl e
      | Inr q \<Rightarrow>
          Inr [\<lparr> supplier = js ''AliExpress'',
                 url = js ''https://www.aliexpress.com/wholesale?SearchText='' @ q,
                 avgPrice = js ''Low'', shippingTime = js ''15-30 days'',
                 reliability = js ''Medium'' \<rparr>,
               \<lparr> supplier = js ''CJ Dropshipping'',
                 url = js ''https://cjdropshipping.com/search?keyword='' @ q,
                 avgPrice = js ''Medium'', shippingTime = js ''7-15 days'',
                 reliability = js ''High'' \<rparr>,
               \<lparr> supplier = js ''Spocket'',
                 url = js ''https://www.spocket.co/search/'' @ q,
                 avgPrice = js ''High'', shippingTime = js ''2-7 days'',
                 reliability = js ''High'' \<rparr>])"

section \<open>Upstream items: price and engagement\<close>

text \<open>
  An upstream item is schema-variable: each field may be absent (\<open>None\<close> stands for
  \<open>undefined\<close> and \<open>null\<close>). A field that is present has the type the handler uses it
  at: the price strings are strings, the counters are Numbers. Only the fields read by
  the price and engagement computations are kept.
\<close>

record product_price_info =
  sale_price_decimal :: "jsstring option"
  sale_price_format :: "jsstring option"
  min_price :: "jsstring option"
  price :: "jsstring option"
  currency_name :: "jsstring option"
  currency_symbol :: "jsstring option"

record statistics =
  play_count :: "jsnum option"
  digg_count :: "jsnum option"

record rate_info =
  view_count :: "jsnum option"
  like_count :: "jsnum option"

record raw_item =
  product_price_info :: "product_price_info option"
  price :: "jsnum option"
  min_price :: "jsstring option"
  statistics :: "statistics option"
  rate_info :: "rate_info option"

text \<open>
  \<open>a || b\<close> where \<open>a\<close> is an optional string, respectively an optional Number: \<open>a\<close>
  when it is truthy (a non-empty string; a Number other than \<open>0\<close> and \<open>NaN\<close>).
\<close>

definition str_or :: "jsstring option \<Rightarrow> jsstring \<Rightarrow> jsstring" where
  "str_or a b = (case a of None \<Rightarrow> b | Some s \<Rightarrow> if s = [] then b else s)"

definition num_or :: "jsnum option \<Rightarrow> jsnum \<Rightarrow> jsnum" where
  "num_or a b = (case a of None \<Rightarrow> b | Some n \<Rightarrow> if truthy n then n else b)"

text \<open>The price string selected from a nested price structure.\<close>

definition priceStr :: "product_price_info \<Rightarrow> jsstring" where
  "priceStr info =
     str_or (sale_price_decimal info)
       (str_or (sale_price_format info)
          (str_or (product_price_info.min_price info)
             (str_or (product_price_info.price info) (js ''0''))))"

text \<open>
  The last branch of the price block: \<open>item.min_price\<close> parsed when it is truthy, the
  initial \<open>0\<close> otherwise.
\<close>

definition parseFloat_min_price :: "jsstring option \<Rightarrow> jsnum" where
  "parseFloat_min_price m =
     (case m of None \<Rightarrow> Fin 0 | Some s \<Rightarrow> if s = [] then Fin 0 else parseFloat s)"

text \<open>The price of an upstream item (the \<open>let price\<close> block of the item callback).\<close>

definition item_price :: "raw_item \<Rightarrow> jsnum" where
  "item_price item =
     (case product_price_info item of
        Some info \<Rightarrow>
          if currency_name info = Some (js ''VND'') then
            (let priceNum = parseFloat (filter (\<lambda>c. c \<noteq> 0x2E) (priceStr info))
             in js_div priceNum (Fin 25000))
          else if currency_name info = Some (js ''USD'') \<or> currency_symbol info = Some (js ''$'')
          then parseFloat (filter (\<lambda>c. c \<noteq> 0x2C) (priceStr info))
          else parseFloat (filter (\<lambda>c. is_digit c \<or> c = 0x2E) (priceStr info))
      | None \<Rightarrow>
          (case raw_item.price item of
             Some n \<Rightarrow>
               if truthy n then js_div n (Fin 100)
               else parseFloat_min_price (raw_item.min_price item)
           | None \<Rightarrow> parseFloat_min_price (raw_item.min_price item)))"




section \<open>Products and the Candidate Selector\<close>

text \<open>
  The canonical record built by the item callback. Titles are strings (the language
  filter has called \<open>match\<close> on them), categories are the strings of the fixed catalogue;
  \<open>rawData\<close> is never read again and is left out. \<open>engagement\<close> carries the Number
  that the field denotes (it is a \<open>toFixed\<close> string or the Number \<open>0\<close>).
\<close>

record product =
  title :: jsstring
  image :: jsstring
  views :: jsnum
  likes :: jsnum
  sold :: jsnum
  price :: jsnum
  engagement :: jsnum
  category :: jsstring


text \<open>
  \<open>Array.prototype.sort\<close> with a comparison function: \<open>a\<close> goes behind \<open>b\<close> when
  \<open>cmp a b > 0\<close>; a result of \<open>0\<close> or \<open>NaN\<close> leaves the two in their order (the sort is
  stable). Modelled as a stable insertion sort, which is the result for every consistent
  comparison function.
\<close>

fun js_insert :: "('a \<Rightarrow> 'a \<Rightarrow> jsnum) \<Rightarrow> 'a \<Rightarrow> 'a list \<Rightarrow> 'a list" where
  "js_insert cmp x [] = [x]"
| "js_insert cmp x (y # ys) =
     (if js_gt (cmp x y) (Fin 0) then y # js_insert cmp x ys else x # y # ys)"

definition js_sort :: "('a \<Rightarrow> 'a \<Rightarrow> jsnum) \<Rightarrow> 'a list \<Rightarrow> 'a list" where
  "js_sort cmp xs = foldr (js_insert cmp) xs []"

definition popularity :: "'a product_scheme \<Rightarrow> jsnum" where
  "popularity p = js_add (js_add (views p) (likes p)) (sold p)"

definition validProducts :: "'a product_scheme list \<Rightarrow> 'a product_scheme list" where
  "validProducts allProducts =
     take 20
       (js_sort (\<lambda>a b. js_sub (popularity b) (popularity a))
          (filter (\<lambda>p. js_gt (product.price p) (Fin 0) \<and> js_lt (product.price p) (Fin 200))
             allProducts))"

section \<open>Scoring Engine\<close>

text \<open>
  One entry of the array that the scoring collaborator returned, read the way the merge
  reads it: absent fields are \<open>None\<close>.
\<close>

record assessment =
  productIndex :: "jsnum option"
  aiScore :: "jsnum option"
  trend :: "jsstring option"
  competition :: "jsstring option"
  recommendation :: "jsstring option"

record analysed_product = product +
  margins :: margins
  sourcing :: "sourcing_option list"

record scored_product = analysed_product +
  aiScore :: jsnum
  trend :: jsstring
  competition :: jsstring
  recommendation :: jsstring

text \<open>
  What the \<open>try\<close> block has in \<open>analysisArray\<close> when it reaches the merge: the request,
  \<open>JSON.parse\<close> or the selection of the array threw (\<open>CallFailed\<close>), or there is an
  array, whose entries may be \<open>null\<close> (\<open>None\<close>). The prompt, which lists the first ten
  products only, and the request itself are not modelled: whatever the collaborator
  answers is an input.
\<close>

datatype ai_reply = CallFailed | Analysis "assessment option list"

text \<open>
  \<open>analysisArray.find(a => a.productIndex === i + 1) || {}\<close> for the product at index
  \<open>i\<close>: the first entry with that index, the empty object (\<open>no_assessment\<close>) when
  there is none; reading \<open>productIndex\<close> of a \<open>null\<close> entry throws.
\<close>

definition no_assessment :: assessment where
  "no_assessment =
     \<lparr> productIndex = None, assessment.aiScore = None, assessment.trend = None,
       assessment.competition = None, assessment.recommendation = None \<rparr>"

fun find_assessment :: "assessment option list \<Rightarrow> nat \<Rightarrow> js_error + assessment" where
  "find_assessment [] i = Inr no_assessment"
| "find_assessment (None # rest) i = Inl TypeError"
| "find_assessment (Some a # rest) i =
     (if productIndex a = Some (Fin (of_nat (i + 1))) then Inr a else find_assessment rest i)"

definition merge_assessment :: "analysed_product \<Rightarrow> assessment \<Rightarrow> scored_product" where
  "merge_assessment p aiData =
     analysed_product.extend p
       \<lparr> aiScore = num_or (assessment.aiScore aiData) (Fin 75),
         trend = str_or (assessment.trend aiData) (js ''Stable''),
         competition = str_or (assessment.competition aiData) (js ''Medium''),
         recommendation =
           str_or (assessment.recommendation aiData) (js ''Good potential for dropshipping'') \<rparr>"

text \<open>\<open>xs.map(f)\<close> where \<open>f\<close> may throw: the first error ends the map.\<close>

fun try_map :: "('a \<Rightarrow> 'e + 'b) \<Rightarrow> 'a list \<Rightarrow> 'e + 'b list" where
  "try_map f [] = Inr []"
| "try_map f (x # xs) =
     (case f x of
        Inl e \<Rightarrow> Inl e
      | Inr y \<Rightarrow> (case try_map f xs of Inl e \<Rightarrow> Inl e | Inr ys \<Rightarrow> Inr (y # ys)))"

definition assisted :: "assessment option list \<Rightarrow> analysed_product list \<Rightarrow> js_error + scored_product list" where
  "assisted analysisArray products =
     try_map (\<lambda>(i, p). map_sum id (merge_assessment p) (find_assessment analysisArray i))
       (enumerate 0 products)"

text \<open>
  \<open>Math.random()\<close> is the sequence \<open>rnd 0, rnd 1, \<dots>\<close> of the draws made from the call of
  \<open>analyzeProductsWithAI\<close> on, each in \<open>[0, 1)\<close>. Without a client every product takes
  three draws (score, trend, competition); in the \<open>catch\<close> block every product takes one.
\<close>

definition random_score :: "rat \<Rightarrow> jsnum" where
  "random_score r = Fin (of_int \<lfloor>r * 30\<rfloor> + 70)"

definition basic_analysis :: "(nat \<Rightarrow> rat) \<Rightarrow> analysed_product list \<Rightarrow> scored_product list" where
  "basic_analysis rnd products =
     map (\<lambda>(i, p).
            analysed_product.extend p
              \<lparr> aiScore = random_score (rnd (3 * i)),
                trend = (if 1 / 2 < rnd (3 * i + 1) then js ''Rising'' else js ''Stable''),
                competition = (if 1 / 2 < rnd (3 * i + 2) then js ''Medium'' else js ''High''),
                recommendation = js ''Analyze manually for best results'' \<rparr>)
       (enumerate 0 products)"

definition basic_scores :: "(nat \<Rightarrow> rat) \<Rightarrow> analysed_product list \<Rightarrow> scored_product list" where
  "basic_scores rnd products =
     map (\<lambda>(i, p).
            analysed_product.extend p
              \<lparr> aiScore = random_score (rnd i),
                trend = js ''Unknown'',
                competition = js ''Medium'',
                recommendation = js ''Manual analysis recommended'' \<rparr>)
       (enumerate 0 products)"

text \<open>
  \<open>ai\<close> is \<open>None\<close> when no client is configured (\<open>getOpenAI()\<close> returns \<open>null\<close>).
\<close>

definition analyzeProductsWithAI ::
  "ai_reply option \<Rightarrow> (nat \<Rightarrow> rat) \<Rightarrow> analysed_product list \<Rightarrow> scored_product list" where
  "analyzeProductsWithAI ai rnd products =
     (case ai of
        None \<Rightarrow> basic_analysis rnd products
      | Some CallFailed \<Rightarrow> basic_scores rnd products
      | Some (Analysis analysisArray) \<Rightarrow>
          (case assisted analysisArray products of
             Inl e \<Rightarrow> basic_scores rnd products
           | Inr analysed \<Rightarrow> analysed))"

section \<open>Niche Aggregator\<close>

record niche =
  category :: jsstring
  count :: nat
  avgScore :: jsnum
  totalSales :: jsnum

text \<open>
  The names a plain object inherits from \<open>Object.prototype\<close>: \<open>niches[c]\<close> reads the
  inherited (truthy) value when \<open>c\<close> is one of them.
\<close>

definition Object_prototype_names :: "jsstring list" where
  "Object_prototype_names =
     map js [''constructor'', ''__defineGetter__'', ''__defineSetter__'', ''hasOwnProperty'',
             ''__lookupGetter__'', ''__lookupSetter__'', ''isPrototypeOf'',
             ''propertyIsEnumerable'', ''toString'', ''valueOf'', ''__proto__'',
             ''toLocaleString'']"

text \<open>
  The \<open>niches\<close> object, as its own properties in insertion order (no category of the
  catalogue is an array index, which would be listed first). One step of the \<open>forEach\<close>:
  create the entry of the product's category when \<open>niches[c]\<close> is falsy, then count the
  product in \<open>niches[c]\<close>. For an inherited name nothing is created and the increments go
  to the inherited value, so the own properties stay as they are.
\<close>

definition niche_step :: "(jsstring \<times> niche) list \<Rightarrow> scored_product \<Rightarrow> (jsstring \<times> niche) list" where
  "niche_step niches p =
     (let c = product.category p
      in if c \<in> set Object_prototype_names then niches
         else
           (let niches1 =
                  (if map_of niches c = None then
                     niches @ [(c, \<lparr> category = c, count = 0, avgScore = Fin 0,
                                      totalSales = Fin 0 \<rparr>)]
                   else niches)
            in map (\<lambda>(k, n).
                      if k = c then
                        (k, n \<lparr> count := count n + 1,
                               avgScore := js_add (avgScore n) (scored_product.aiScore p),
                               totalSales :=
                                 js_add (totalSales n)
                                   (if truthy (sold p) then sold p else Fin 0) \<rparr>)
                      else (k, n))
                 niches1))"

definition trendingNiches :: "scored_product list \<Rightarrow> niche list" where
  "trendingNiches sortedProducts =
     js_sort (\<lambda>a b. js_sub (avgScore b) (avgScore a))
       (map (\<lambda>n. n \<lparr> avgScore := Math_round (js_div (avgScore n) (Fin (of_nat (count n)))) \<rparr>)
          (map snd (foldl niche_step [] sortedProducts)))"

section \<open>Entry points\<close>

text \<open>
  The reason of an unsuccessful response: a literal message of the handler, or the
  message of the error caught by its \<open>catch\<close> block.
\<close>

datatype reason = Message jsstring | Caught js_error

datatype recommendations_response =
  Unsuccessful reason
| Successful (products: "scored_product list") (niches: "niche list") (totalProducts: nat)

text \<open>
  The recommendations handler from the pooled list \<open>allProducts\<close> on (the category
  queries before it only build that list). An error thrown on the way is caught by the
  handler and reported with its message; the \<open>timestamp\<close> of a successful response is
  left out.
\<close>

definition recommendations ::
  "ai_reply option \<Rightarrow> (nat \<Rightarrow> rat) \<Rightarrow> product list \<Rightarrow> recommendations_response" where
  "recommendations ai rnd allProducts =
     (if length allProducts = 0 then
        Unsuccessful (Message (js ''No products found. Try again or check your API key.''))
      else
        case try_map (\<lambda>p. map_sum id
                             (\<lambda>s. product.extend p
                                    \<lparr> margins = calculateMargins (product.price p), sourcing = s \<rparr>)
                             (getSourcingRecommendations (title p)))
               (validProducts allProducts) of
          Inl e \<Rightarrow> Unsuccessful (Caught e)
        | Inr productsWithAnalysis \<Rightarrow>
            (let analyzedProducts = analyzeProductsWithAI ai rnd productsWithAnalysis;
                 sortedProducts =
                   js_sort (\<lambda>a b. js_sub (scored_product.aiScore b) (scored_product.aiScore a))
                     analyzedProducts
             in Successful sortedProducts (trendingNiches sortedProducts)
                  (length sortedProducts)))"

text \<open>
  The body of an analyze-product request: \<open>product\<close> may be absent, and so may its
  fields. An absent title is passed on as \<open>undefined\<close>, which \<open>encodeURIComponent\<close>
  turns into the string \<open>undefined\<close>.
\<close>

record request_product =
  price :: "jsnum option"
  title :: "jsstring option"

datatype analysis_response =
  Rejected reason
| Analysed (margins_of: margins) (sourcing_of: "sourcing_option list")

definition analyze_product :: "request_product option \<Rightarrow> analysis_response" where
  "analyze_product product =
     (case Option.bind product request_product.price of
        None \<Rightarrow> Rejected (Message (js ''Invalid product data''))
      | Some p \<Rightarrow>
          if \<not> truthy p then Rejected (Message (js ''Invalid product data''))
          else
            (let margins = calculateMargins p
             in case getSourcingRecommendations
                       (case Option.bind product request_product.title of
                          None \<Rightarrow> js ''undefined'' | Some t \<Rightarrow> t) of
                  Inl e \<Rightarrow> Rejected (Caught e)
                | Inr catalogue \<Rightarrow> Analysed margins catalogue))"

section \<open>Vocabulary of the statements\<close>


text \<open>\<open>x <= y\<close> on Numbers.\<close>

fun js_le :: "jsnum \<Rightarrow> jsnum \<Rightarrow> bool" where
  "js_le (Fin a) (Fin b) = (a \<le> b)"
| "js_le NaN y = False"
| "js_le x NaN = False"
| "js_le NInf y = True"
| "js_le x PInf = True"
| "js_le x y = False"

text \<open>The entries of the array the collaborator returned, none when there is no array.\<close>

definition entries :: "ai_reply option \<Rightarrow> assessment option list" where
  "entries ai = (case ai of Some (Analysis analysisArray) \<Rightarrow> analysisArray | _ \<Rightarrow> [])"

text \<open>
  Which of the three paths \<open>analyzeProductsWithAI\<close> takes: no client configured, the
  \<open>catch\<close> block, or the merge of the returned assessments.
\<close>

datatype path = NoClient | Failed | Assisted

definition path_taken :: "ai_reply option \<Rightarrow> analysed_product list \<Rightarrow> path" where
  "path_taken ai ps =
     (case ai of
        None \<Rightarrow> NoClient
      | Some CallFailed \<Rightarrow> Failed
      | Some (Analysis analysisArray) \<Rightarrow>
          (case assisted analysisArray ps of Inl e \<Rightarrow> Failed | Inr analysed \<Rightarrow> Assisted))"

text \<open>Assessments a collaborator may return.\<close>

definition overscored :: assessment where
  "overscored =
     \<lparr> productIndex = Some (Fin 1), assessment.aiScore = Some (Fin 150),
       assessment.trend = Some (js ''Rising''), assessment.competition = Some (js ''Low''),
       assessment.recommendation = Some (js ''Sell it now'') \<rparr>"

definition late_assessment :: assessment where
  "late_assessment =
     \<lparr> productIndex = Some (Fin 11), assessment.aiScore = Some (Fin 90),
       assessment.trend = Some (js ''Rising''), assessment.competition = Some (js ''Low''),
       assessment.recommendation = Some (js ''Sell it now'') \<rparr>"

definition fair_assessment :: assessment where
  "fair_assessment =
     \<lparr> productIndex = Some (Fin 1), assessment.aiScore = Some (Fin 88),
       assessment.trend = Some (js ''Rising''), assessment.competition = Some (js ''Low''),
       assessment.recommendation = Some (js ''Sell it now'') \<rparr>"





definition first_occurrences :: "'a list \<Rightarrow> 'a list" where
  "first_occurrences xs = rev (remdups (rev xs))"



text \<open>
  The selected price string after the stripping rule of the branch that parses it.
\<close>

definition stripped :: "product_price_info \<Rightarrow> jsstring" where
  "stripped info =
     (if currency_name info = Some (js ''VND'') then filter (\<lambda>c. c \<noteq> 0x2E) (priceStr info)
      else if currency_name info = Some (js ''USD'') \<or> currency_symbol info = Some (js ''$'')
      then filter (\<lambda>c. c \<noteq> 0x2C) (priceStr info)
      else filter (\<lambda>c. is_digit c \<or> c = 0x2E) (priceStr info))"

text \<open>
  The string that the price block hands to \<open>parseFloat\<close>: the stripped selection of a
  nested price structure, or the top-level \<open>min_price\<close> when there is no nested
  structure and no truthy top-level \<open>price\<close>; none when the block parses nothing.
\<close>

definition price_text :: "raw_item \<Rightarrow> jsstring option" where
  "price_text item =
     (case product_price_info item of
        Some info \<Rightarrow> Some (stripped info)
      | None \<Rightarrow>
          if (case raw_item.price item of None \<Rightarrow> False | Some n \<Rightarrow> truthy n) then None
          else (case raw_item.min_price item of
                  None \<Rightarrow> None
                | Some s \<Rightarrow> if s = [] then None else Some s))"

text \<open>The title that the analyze-product handler passes to the sourcing catalogue.\<close>

definition requested_title :: "request_product option \<Rightarrow> jsstring" where
  "requested_title product =
     (case Option.bind product request_product.title of None \<Rightarrow> js ''undefined'' | Some t \<Rightarrow> t)"

subsection \<open>Example inputs\<close>

definition no_price_info :: product_price_info where
  "no_price_info =
     \<lparr> sale_price_decimal = None, sale_price_format = None,
       product_price_info.min_price = None, product_price_info.price = None,
       currency_name = None, currency_symbol = None \<rparr>"

definition bare_item :: raw_item where
  "bare_item =
     \<lparr> product_price_info = None, raw_item.price = None, raw_item.min_price = None,
       statistics = None, rate_info = None \<rparr>"

definition comma_price_item :: raw_item where
  "comma_price_item =
     bare_item \<lparr> product_price_info :=
       Some (no_price_info \<lparr> sale_price_format := Some (js ''$12,99''),
                              currency_symbol := Some (js ''$'') \<rparr>) \<rparr>"



definition surrogate_request :: "request_product option" where
  "surrogate_request =
     Some \<lparr> request_product.price = Some (Fin 10), request_product.title = Some [0xD800] \<rparr>"

definition lamp_request :: "request_product option" where
  "lamp_request =
     Some \<lparr> request_product.price = Some (Fin 100), request_product.title = Some (js ''LED lamp'') \<rparr>"

definition free_request :: "request_product option" where
  "free_request =
     Some \<lparr> request_product.price = Some (Fin 0), request_product.title = Some (js ''LED lamp'') \<rparr>"

definition listing :: "rat \<Rightarrow> rat \<Rightarrow> string \<Rightarrow> product" where
  "listing v p c =
     \<lparr> product.title = js ''Lamp'', image = [], views = Fin v, likes = Fin 50, sold = Fin 20,
       product.price = Fin p, engagement = Fin 5, product.category = js c \<rparr>"


text \<open>A product as the handler passes it to the Scoring Engine.\<close>

definition candidate :: "product \<Rightarrow> analysed_product" where
  "candidate p =
     product.extend p
       \<lparr> margins = calculateMargins (product.price p),
         sourcing = (case getSourcingRecommendations (product.title p) of
                       Inl e \<Rightarrow> [] | Inr s \<Rightarrow> s) \<rparr>"

definition half :: "nat \<Rightarrow> rat" where
  "half n = 1 / 2"



section \<open>Margin Calculator: rounding\<close>









section \<open>Candidate Selector: filtering, order and size\<close>





lemma set_js_insert: "set (js_insert cmp x ys) = insert x (set ys)"
  by (induction ys) auto

lemma length_js_insert: "length (js_insert cmp x ys) = Suc (length ys)"
  by (induction ys) auto

lemma set_js_sort: "set (js_sort cmp xs) = set xs"
  by (induction xs) (auto simp: js_sort_def set_js_insert)




lemma validProducts_price:
  assumes "p \<in> set (validProducts allProducts)"
  shows "js_gt (product.price p) (Fin 0) \<and> js_lt (product.price p) (Fin 200)"
proof -
  let ?kept = "filter (\<lambda>p. js_gt (product.price p) (Fin 0) \<and> js_lt (product.price p) (Fin 200))
                 allProducts"
  let ?sorted = "js_sort (\<lambda>a b. js_sub (popularity b) (popularity a)) ?kept"
  have "set (take 20 ?sorted) \<subseteq> set ?kept"
    using set_take_subset [of 20 ?sorted] by (simp add: set_js_sort)
  with assms show ?thesis
    unfolding validProducts_def by auto
qed

lemma validProducts_none:
  assumes "\<forall>p\<in>set allProducts. \<not> (js_gt (product.price p) (Fin 0) \<and> js_lt (product.price p) (Fin 200))"
  shows "validProducts allProducts = []"
proof -
  have "filter (\<lambda>p. js_gt (product.price p) (Fin 0) \<and> js_lt (product.price p) (Fin 200))
          allProducts = []"
    using assms by (simp add: filter_empty_conv)
  then show ?thesis
    by (simp add: validProducts_def js_sort_def)
qed



section \<open>Scoring Engine: the three paths\<close>

lemma try_map_Inr:
  "try_map f xs = Inr ys \<Longrightarrow> list_all2 (\<lambda>x y. f x = Inr y) xs ys"
proof (induction xs arbitrary: ys)
  case Nil
  then show ?case by simp
next
  case (Cons x xs)
  then show ?case
    by (auto split: sum.splits)
qed

lemma find_assessment_Inr:
  "find_assessment arr i = Inr a \<Longrightarrow> a = no_assessment \<or> Some a \<in> set arr"
proof (induction arr)
  case Nil
  then show ?case by (simp add: no_assessment_def)
next
  case (Cons e arr)
  then show ?case
    by (cases e) (auto split: if_splits)
qed

lemma find_assessment_no_match:
  assumes "find_assessment arr i = Inr a"
    and "\<forall>e. Some e \<in> set arr \<longrightarrow> productIndex e \<noteq> Some (Fin (of_nat (i + 1)))"
  shows "a = no_assessment"
  using assms
proof (induction arr)
  case Nil
  then show ?case by (simp add: no_assessment_def)
next
  case (Cons e arr)
  then show ?case
    by (cases e) (auto split: if_splits)
qed

lemma random_score_range:
  assumes "0 \<le> r" and "r < 1"
  shows "js_le (Fin 70) (random_score r) \<and> js_le (random_score r) (Fin 99)"
proof -
  have lo: "0 \<le> \<lfloor>r * 30\<rfloor>" using assms by simp
  have "r * 30 < 30" using assms by simp
  then have "\<lfloor>r * 30\<rfloor> < 30" by (simp add: floor_less_iff)
  then have hi: "\<lfloor>r * 30\<rfloor> \<le> 29" by simp
  have "(of_int 0 :: rat) \<le> of_int \<lfloor>r * 30\<rfloor>"
    using lo by (simp only: of_int_le_iff)
  moreover have "(of_int \<lfloor>r * 30\<rfloor> :: rat) \<le> of_int 29"
    using hi by (simp only: of_int_le_iff)
  ultimately show ?thesis
    unfolding random_score_def by simp
qed

lemma list_all2_right:
  "list_all2 Q xs ys \<Longrightarrow> y \<in> set ys \<Longrightarrow> \<exists>x\<in>set xs. Q x y"
  by (induction rule: list_all2_induct) auto

lemma aiScore_extend [simp]:
  "scored_product.aiScore (analysed_product.extend p \<lparr> aiScore = s, trend = t, competition = c, recommendation = m \<rparr>) = s"
  by (simp add: analysed_product.extend_def)

lemma trend_extend [simp]:
  "scored_product.trend (analysed_product.extend p \<lparr> aiScore = s, trend = t, competition = c, recommendation = m \<rparr>) = t"
  by (simp add: analysed_product.extend_def)

lemma competition_extend [simp]:
  "scored_product.competition (analysed_product.extend p \<lparr> aiScore = s, trend = t, competition = c, recommendation = m \<rparr>) = c"
  by (simp add: analysed_product.extend_def)

lemma recommendation_extend [simp]:
  "scored_product.recommendation (analysed_product.extend p \<lparr> aiScore = s, trend = t, competition = c, recommendation = m \<rparr>) = m"
  by (simp add: analysed_product.extend_def)

lemma assisted_elem:
  assumes "assisted arr ps = Inr rs" and "r \<in> set rs"
  shows "\<exists>p a. r = merge_assessment p a \<and> (a = no_assessment \<or> Some a \<in> set arr)"
proof -
  define step where
    "step = (\<lambda>(i, p). map_sum id (merge_assessment p) (find_assessment arr i))"
  from assms(1) have "list_all2 (\<lambda>x y. step x = Inr y) (enumerate 0 ps) rs"
    unfolding assisted_def step_def by (rule try_map_Inr)
  from list_all2_right [OF this assms(2)] obtain x where x: "step x = Inr r"
    by blast
  obtain i p where "x = (i, p)" by (cases x)
  with x have m: "map_sum id (merge_assessment p) (find_assessment arr i) = Inr r"
    by (simp add: step_def)
  show ?thesis
  proof (cases "find_assessment arr i")
    case (Inl e)
    with m show ?thesis by simp
  next
    case (Inr a)
    with m have "r = merge_assessment p a" by simp
    moreover from Inr have "a = no_assessment \<or> Some a \<in> set arr"
      by (rule find_assessment_Inr)
    ultimately show ?thesis by blast
  qed
qed

lemma basic_analysis_elem:
  assumes "\<forall>n. 0 \<le> rnd n \<and> rnd n < 1" and "r \<in> set (basic_analysis rnd ps)"
  shows "js_le (Fin 70) (scored_product.aiScore r) \<and> js_le (scored_product.aiScore r) (Fin 99)
       \<and> scored_product.trend r \<in> {js ''Rising'', js ''Stable''}
       \<and> scored_product.competition r \<in> {js ''Medium'', js ''High''}
       \<and> scored_product.recommendation r = js ''Analyze manually for best results''"
proof -
  from assms(2) obtain i p where
    r: "r = analysed_product.extend p
              \<lparr> aiScore = random_score (rnd (3 * i)),
                trend = (if 1 / 2 < rnd (3 * i + 1) then js ''Rising'' else js ''Stable''),
                competition = (if 1 / 2 < rnd (3 * i + 2) then js ''Medium'' else js ''High''),
                recommendation = js ''Analyze manually for best results'' \<rparr>"
    unfolding basic_analysis_def by (auto simp: in_set_enumerate_eq)
  show ?thesis
    unfolding r using random_score_range [of "rnd (3 * i)"] assms(1) by simp
qed

lemma basic_scores_elem:
  assumes "\<forall>n. 0 \<le> rnd n \<and> rnd n < 1" and "r \<in> set (basic_scores rnd ps)"
  shows "js_le (Fin 70) (scored_product.aiScore r) \<and> js_le (scored_product.aiScore r) (Fin 99)
       \<and> scored_product.trend r = js ''Unknown''
       \<and> scored_product.competition r = js ''Medium''
       \<and> scored_product.recommendation r = js ''Manual analysis recommended''"
proof -
  from assms(2) obtain i p where
    r: "r = analysed_product.extend p
              \<lparr> aiScore = random_score (rnd i),
                trend = js ''Unknown'',
                competition = js ''Medium'',
                recommendation = js ''Manual analysis recommended'' \<rparr>"
    unfolding basic_scores_def by (auto simp: in_set_enumerate_eq)
  show ?thesis
    unfolding r using random_score_range [of "rnd i"] assms(1) by simp
qed

lemma length_basic_analysis: "length (basic_analysis rnd ps) = length ps"
  by (simp add: basic_analysis_def)

lemma length_basic_scores: "length (basic_scores rnd ps) = length ps"
  by (simp add: basic_scores_def)

lemma analyze_NoClient:
  "path_taken ai ps = NoClient \<Longrightarrow> analyzeProductsWithAI ai rnd ps = basic_analysis rnd ps"
  by (auto simp: path_taken_def analyzeProductsWithAI_def split: option.splits ai_reply.splits sum.splits)

lemma analyze_Failed:
  "path_taken ai ps = Failed \<Longrightarrow> analyzeProductsWithAI ai rnd ps = basic_scores rnd ps"
  by (auto simp: path_taken_def analyzeProductsWithAI_def split: option.splits ai_reply.splits sum.splits)

lemma analyze_Assisted:
  "path_taken ai ps = Assisted \<Longrightarrow>
     assisted (entries ai) ps = Inr (analyzeProductsWithAI ai rnd ps)"
  by (auto simp: path_taken_def analyzeProductsWithAI_def entries_def
      split: option.splits ai_reply.splits sum.splits)

lemma js_le_99_100: "js_le x (Fin 99) \<Longrightarrow> js_le x (Fin 100)"
  by (cases x) auto

lemma js_le_0_70: "js_le (Fin 70) x \<Longrightarrow> js_le (Fin 0) x"
  by (cases x) auto

lemma merge_assessment_score:
  "scored_product.aiScore (merge_assessment p a) = num_or (assessment.aiScore a) (Fin 75)"
  by (simp add: merge_assessment_def)

lemma merge_no_assessment:
  "scored_product.aiScore (merge_assessment p no_assessment) = Fin 75
   \<and> scored_product.trend (merge_assessment p no_assessment) = js ''Stable''
   \<and> scored_product.competition (merge_assessment p no_assessment) = js ''Medium''
   \<and> scored_product.recommendation (merge_assessment p no_assessment)
       = js ''Good potential for dropshipping''"
  by (simp add: merge_assessment_def no_assessment_def num_or_def str_or_def)

text \<open>
  C3, as stated, on the assisted path: the collaborator returns the score \<open>150\<close> for
  position \<open>1\<close>, and the scored product carries \<open>150\<close>.
\<close>

theorem aiScore_above_100:
  "map scored_product.aiScore
     (analyzeProductsWithAI (Some (Analysis [Some overscored])) half
        [candidate (listing 1000 40 ''home decor'')])
   = [Fin 150]"
  by code_simp

text \<open>
  C3, amended: on the two fallback paths every \<open>aiScore\<close> lies in \<open>[0, 100]\<close>; on the
  assisted path a returned score is taken over as it is, so every \<open>aiScore\<close> lies in
  \<open>[0, 100]\<close> provided every score the collaborator returned does (a missing, zero or
  \<open>NaN\<close> score becomes \<open>75\<close>).
\<close>

theorem aiScore_in_range:
  assumes "\<forall>n. 0 \<le> rnd n \<and> rnd n < 1"
    and "\<forall>a s. Some a \<in> set (entries ai) \<and> assessment.aiScore a = Some s
           \<longrightarrow> js_le (Fin 0) s \<and> js_le s (Fin 100)"
  shows "\<forall>r\<in>set (analyzeProductsWithAI ai rnd ps).
           js_le (Fin 0) (scored_product.aiScore r) \<and> js_le (scored_product.aiScore r) (Fin 100)"
proof
  fix r
  assume r: "r \<in> set (analyzeProductsWithAI ai rnd ps)"
  show "js_le (Fin 0) (scored_product.aiScore r) \<and> js_le (scored_product.aiScore r) (Fin 100)"
  proof (cases "path_taken ai ps")
    case NoClient
    with r have "r \<in> set (basic_analysis rnd ps)" by (simp add: analyze_NoClient)
    from basic_analysis_elem [OF assms(1) this] show ?thesis
      by (simp add: js_le_99_100 js_le_0_70)
  next
    case Failed
    with r have "r \<in> set (basic_scores rnd ps)" by (simp add: analyze_Failed)
    from basic_scores_elem [OF assms(1) this] show ?thesis
      by (simp add: js_le_99_100 js_le_0_70)
  next
    case Assisted
    from assisted_elem [OF analyze_Assisted [OF Assisted] r]
    obtain p a where m: "r = merge_assessment p a"
      and a: "a = no_assessment \<or> Some a \<in> set (entries ai)" by blast
    show ?thesis
    proof (cases "assessment.aiScore a")
      case None
      with m show ?thesis by (simp add: merge_assessment_score num_or_def)
    next
      case (Some s)
      with a have "Some a \<in> set (entries ai)" by (auto simp: no_assessment_def)
      with Some assms(2) have "js_le (Fin 0) s \<and> js_le s (Fin 100)" by blast
      with m Some show ?thesis by (simp add: merge_assessment_score num_or_def)
    qed
  qed
qed

theorem aiScore_in_range_witness:
  "(\<forall>n. 0 \<le> half n \<and> half n < 1)
   \<and> entries (Some (Analysis [Some fair_assessment])) = [Some fair_assessment]
   \<and> assessment.aiScore fair_assessment = Some (Fin 88)
   \<and> js_le (Fin 0) (Fin 88) \<and> js_le (Fin 88) (Fin 100)
   \<and> list_all (\<lambda>r. js_le (Fin 0) (scored_product.aiScore r)
                   \<and> js_le (scored_product.aiScore r) (Fin 100))
         (analyzeProductsWithAI (Some (Analysis [Some fair_assessment])) half
            [candidate (listing 1000 40 ''home decor'')])"
proof -
  have h1: "\<forall>n. 0 \<le> half n \<and> half n < 1" by (simp add: half_def)
  have e: "entries (Some (Analysis [Some fair_assessment])) = [Some fair_assessment]"
    by (simp add: entries_def)
  have s: "assessment.aiScore fair_assessment = Some (Fin 88)"
    by (simp add: fair_assessment_def)
  have h2: "\<forall>a s. Some a \<in> set (entries (Some (Analysis [Some fair_assessment])))
            \<and> assessment.aiScore a = Some s
         \<longrightarrow> js_le (Fin 0) s \<and> js_le s (Fin 100)"
    by (auto simp: e s)
  have r: "js_le (Fin 0) (Fin 88) \<and> js_le (Fin 88) (Fin 100)" by simp
  from aiScore_in_range [OF h1 h2] h1 e s r show ?thesis
    unfolding list_all_iff by blast
qed

text \<open>
  C4, as stated, on the failure of the assisted path: the trend assigned is \<open>Unknown\<close>,
  which is neither \<open>Rising\<close> nor \<open>Stable\<close>.
\<close>

theorem failure_path_trend_unknown:
  "map scored_product.trend
     (analyzeProductsWithAI (Some CallFailed) half [candidate (listing 1000 40 ''home decor'')])
   = [js ''Unknown'']"
  by code_simp

text \<open>
  C4, amended: when no collaborator is configured every product of the batch is assigned
  an \<open>aiScore\<close> in \<open>[70, 100]\<close>, a trend in \<open>{Rising, Stable}\<close>, a competition in
  \<open>{Medium, High}\<close> and the recommendation \<open>Analyze manually for best results\<close>; when the
  assisted path fails every product is assigned an \<open>aiScore\<close> in \<open>[70, 100]\<close>, the trend
  \<open>Unknown\<close>, the competition \<open>Medium\<close> and the recommendation
  \<open>Manual analysis recommended\<close>.
\<close>

theorem fallback_paths:
  assumes "\<forall>n. 0 \<le> rnd n \<and> rnd n < 1"
  shows "(path_taken ai ps = NoClient \<longrightarrow>
            length (analyzeProductsWithAI ai rnd ps) = length ps
            \<and> (\<forall>r\<in>set (analyzeProductsWithAI ai rnd ps).
                  js_le (Fin 70) (scored_product.aiScore r)
                  \<and> js_le (scored_product.aiScore r) (Fin 100)
                  \<and> scored_product.trend r \<in> {js ''Rising'', js ''Stable''}
                  \<and> scored_product.competition r \<in> {js ''Medium'', js ''High''}
                  \<and> scored_product.recommendation r = js ''Analyze manually for best results''))
       \<and> (path_taken ai ps = Failed \<longrightarrow>
            length (analyzeProductsWithAI ai rnd ps) = length ps
            \<and> (\<forall>r\<in>set (analyzeProductsWithAI ai rnd ps).
                  js_le (Fin 70) (scored_product.aiScore r)
                  \<and> js_le (scored_product.aiScore r) (Fin 100)
                  \<and> scored_product.trend r = js ''Unknown''
                  \<and> scored_product.competition r = js ''Medium''
                  \<and> scored_product.recommendation r = js ''Manual analysis recommended''))"
proof (intro conjI impI)
  assume p: "path_taken ai ps = NoClient"
  show "length (analyzeProductsWithAI ai rnd ps) = length ps"
    by (simp add: analyze_NoClient [OF p] length_basic_analysis)
  show "\<forall>r\<in>set (analyzeProductsWithAI ai rnd ps).
                  js_le (Fin 70) (scored_product.aiScore r)
                  \<and> js_le (scored_product.aiScore r) (Fin 100)
                  \<and> scored_product.trend r \<in> {js ''Rising'', js ''Stable''}
                  \<and> scored_product.competition r \<in> {js ''Medium'', js ''High''}
                  \<and> scored_product.recommendation r = js ''Analyze manually for best results''"
    unfolding analyze_NoClient [OF p]
    using basic_analysis_elem [OF assms] js_le_99_100 by blast
next
  assume p: "path_taken ai ps = Failed"
  show "length (analyzeProductsWithAI ai rnd ps) = length ps"
    by (simp add: analyze_Failed [OF p] length_basic_scores)
  show "\<forall>r\<in>set (analyzeProductsWithAI ai rnd ps).
                  js_le (Fin 70) (scored_product.aiScore r)
                  \<and> js_le (scored_product.aiScore r) (Fin 100)
                  \<and> scored_product.trend r = js ''Unknown''
                  \<and> scored_product.competition r = js ''Medium''
                  \<and> scored_product.recommendation r = js ''Manual analysis recommended''"
    unfolding analyze_Failed [OF p]
    using basic_scores_elem [OF assms] js_le_99_100 by blast
qed


theorem fallback_paths_witness:
  "(\<forall>n. 0 \<le> half n \<and> half n < 1)
   \<and> path_taken None [candidate (listing 1000 40 ''home decor'')] = NoClient
   \<and> list_all (\<lambda>r. js_le (Fin 70) (scored_product.aiScore r)
                   \<and> js_le (scored_product.aiScore r) (Fin 100)
                   \<and> scored_product.trend r \<in> {js ''Rising'', js ''Stable''}
                   \<and> scored_product.competition r \<in> {js ''Medium'', js ''High''}
                   \<and> scored_product.recommendation r = js ''Analyze manually for best results'')
         (analyzeProductsWithAI None half [candidate (listing 1000 40 ''home decor'')])
   \<and> path_taken (Some CallFailed) [candidate (listing 1000 40 ''home decor'')] = Failed
   \<and> list_all (\<lambda>r. js_le (Fin 70) (scored_product.aiScore r)
                   \<and> js_le (scored_product.aiScore r) (Fin 100)
                   \<and> scored_product.trend r = js ''Unknown''
                   \<and> scored_product.competition r = js ''Medium''
                   \<and> scored_product.recommendation r = js ''Manual analysis recommended'')
         (analyzeProductsWithAI (Some CallFailed) half
            [candidate (listing 1000 40 ''home decor'')])"
proof -
  have h: "\<forall>n. 0 \<le> half n \<and> half n < 1" by (simp add: half_def)
  have n: "path_taken None [candidate (listing 1000 40 ''home decor'')] = NoClient"
    by (simp add: path_taken_def)
  have f: "path_taken (Some CallFailed) [candidate (listing 1000 40 ''home decor'')] = Failed"
    by (simp add: path_taken_def)
  from fallback_paths [OF h, of None "[candidate (listing 1000 40 ''home decor'')]"]
    fallback_paths [OF h, of "Some CallFailed" "[candidate (listing 1000 40 ''home decor'')]"]
    h n f
  show ?thesis unfolding list_all_iff by blast
qed

lemma try_map_nth:
  assumes "try_map f xs = Inr ys" and "i < length xs"
  shows "f (xs ! i) = Inr (ys ! i)"
  using try_map_Inr [OF assms(1)] assms(2) by (simp add: list_all2_conv_all_nth)

text \<open>
  C8, as stated: with eleven candidates and a returned assessment whose position index
  is \<open>11\<close>, the eleventh product carries the returned score \<open>90\<close>, not \<open>75\<close>.
\<close>

theorem late_position_scored:
  "scored_product.aiScore
     (analyzeProductsWithAI (Some (Analysis [Some late_assessment])) half
        (replicate 11 (candidate (listing 1000 40 ''home decor''))) ! 10)
   = Fin 90"
  by code_simp

text \<open>
  C8, amended: in the assisted path every product at 1-based position \<open>11\<close> or beyond
  whose position index no returned assessment carries receives the defaults
  (\<open>aiScore 75\<close>, trend \<open>Stable\<close>, competition \<open>Medium\<close>, the generic recommendation).
\<close>

theorem unmatched_position_defaults:
  assumes "path_taken ai ps = Assisted" and "10 \<le> i" and "i < length ps"
    and "\<forall>e. Some e \<in> set (entries ai) \<longrightarrow> productIndex e \<noteq> Some (Fin (of_nat (i + 1)))"
  shows "analyzeProductsWithAI ai rnd ps ! i = merge_assessment (ps ! i) no_assessment
       \<and> scored_product.aiScore (analyzeProductsWithAI ai rnd ps ! i) = Fin 75
       \<and> scored_product.trend (analyzeProductsWithAI ai rnd ps ! i) = js ''Stable''
       \<and> scored_product.competition (analyzeProductsWithAI ai rnd ps ! i) = js ''Medium''
       \<and> scored_product.recommendation (analyzeProductsWithAI ai rnd ps ! i)
           = js ''Good potential for dropshipping''"
proof -
  let ?rs = "analyzeProductsWithAI ai rnd ps"
  have "try_map (\<lambda>(i, p). map_sum id (merge_assessment p) (find_assessment (entries ai) i))
          (enumerate 0 ps) = Inr ?rs"
    using analyze_Assisted [OF assms(1)] by (simp add: assisted_def)
  from try_map_nth [OF this, of i] assms(3)
  have m: "map_sum id (merge_assessment (ps ! i)) (find_assessment (entries ai) i) = Inr (?rs ! i)"
    by (simp add: nth_enumerate_eq)
  have "?rs ! i = merge_assessment (ps ! i) no_assessment"
  proof (cases "find_assessment (entries ai) i")
    case (Inl e)
    with m show ?thesis by simp
  next
    case (Inr a)
    from find_assessment_no_match [OF Inr assms(4)] have "a = no_assessment" .
    with m Inr show ?thesis by simp
  qed
  then show ?thesis by (simp add: merge_no_assessment)
qed

theorem unmatched_position_defaults_witness:
  "path_taken (Some (Analysis [Some fair_assessment]))
     (replicate 11 (candidate (listing 1000 40 ''home decor''))) = Assisted
   \<and> (10::nat) \<le> 10
   \<and> 10 < length (replicate 11 (candidate (listing 1000 40 ''home decor'')))
   \<and> entries (Some (Analysis [Some fair_assessment])) = [Some fair_assessment]
   \<and> productIndex fair_assessment = Some (Fin 1)
   \<and> scored_product.aiScore
        (analyzeProductsWithAI (Some (Analysis [Some fair_assessment])) half
           (replicate 11 (candidate (listing 1000 40 ''home decor''))) ! 10) = Fin 75
   \<and> scored_product.trend
        (analyzeProductsWithAI (Some (Analysis [Some fair_assessment])) half
           (replicate 11 (candidate (listing 1000 40 ''home decor''))) ! 10) = js ''Stable''"
proof -
  have p: "path_taken (Some (Analysis [Some fair_assessment]))
     (replicate 11 (candidate (listing 1000 40 ''home decor''))) = Assisted"
    by code_simp
  have l: "10 < length (replicate 11 (candidate (listing 1000 40 ''home decor'')))"
    by simp
  have n: "entries (Some (Analysis [Some fair_assessment])) = [Some fair_assessment]"
    by (simp add: entries_def)
  have i: "productIndex fair_assessment = Some (Fin 1)"
    by (simp add: fair_assessment_def)
  have e: "\<forall>e. Some e \<in> set (entries (Some (Analysis [Some fair_assessment])))
          \<longrightarrow> productIndex e \<noteq> Some (Fin (of_nat (10 + 1)))"
    by (simp add: n i)
  have t: "(10::nat) \<le> 10" by simp
  from unmatched_position_defaults [OF p t l e, of half] p t l n i show ?thesis by blast
qed


section \<open>Entry points and normalizers\<close>

lemma analyze_nothing: "analyzeProductsWithAI ai rnd [] = []"
  by (simp add: analyzeProductsWithAI_def basic_analysis_def basic_scores_def assisted_def
      split: option.splits ai_reply.splits)

text \<open>
  C5, as stated: the pool holds one product, of price \<open>0\<close>; no candidate survives the
  filter, and the response is successful with an empty product list.
\<close>

theorem all_prices_out_of_range_succeeds:
  "recommendations None half [listing 3000 0 ''makeup''] = Successful [] [] 0"
  by code_simp

text \<open>
  C5, amended: when the pooled list is empty the entry point returns an unsuccessful
  outcome with the reason \<open>No products found. Try again or check your API key.\<close>; when
  the pooled list is not empty and none of its products has \<open>0 < price < 200\<close>, it returns
  a successful result with no product, no niche and \<open>totalProducts = 0\<close>.
\<close>

theorem empty_pool_unsuccessful:
  "recommendations ai rnd []
     = Unsuccessful (Message (js ''No products found. Try again or check your API key.''))
   \<and> (allProducts \<noteq> []
        \<and> (\<forall>p\<in>set allProducts.
              \<not> (js_gt (product.price p) (Fin 0) \<and> js_lt (product.price p) (Fin 200)))
      \<longrightarrow> recommendations ai rnd allProducts = Successful [] [] 0)"
proof (intro conjI impI)
  show "recommendations ai rnd []
     = Unsuccessful (Message (js ''No products found. Try again or check your API key.''))"
    by (simp add: recommendations_def)
next
  assume a: "allProducts \<noteq> []
        \<and> (\<forall>p\<in>set allProducts.
              \<not> (js_gt (product.price p) (Fin 0) \<and> js_lt (product.price p) (Fin 200)))"
  then have v: "validProducts allProducts = []"
    by (simp add: validProducts_none)
  from a show "recommendations ai rnd allProducts = Successful [] [] 0"
    by (simp add: recommendations_def v analyze_nothing js_sort_def trendingNiches_def)
qed

theorem empty_pool_unsuccessful_witness:
  "recommendations None half []
     = Unsuccessful (Message (js ''No products found. Try again or check your API key.''))
   \<and> [listing 3000 0 ''makeup''] \<noteq> []
   \<and> list_all (\<lambda>p. \<not> (js_gt (product.price p) (Fin 0) \<and> js_lt (product.price p) (Fin 200)))
         [listing 3000 0 ''makeup'']
   \<and> recommendations None half [listing 3000 0 ''makeup''] = Successful [] [] 0"
  using empty_pool_unsuccessful [of None half "[listing 3000 0 ''makeup'']"]
  by (simp add: listing_def js_gt_def)

text \<open>
  C6, as stated, at its own example: \<open>sale_price_format\<close> \<open>$12,99\<close> with
  \<open>currency_symbol\<close> \<open>$\<close> leaves \<open>$1299\<close>, and the price is \<open>NaN\<close>, not \<open>0\<close>.
\<close>

theorem comma_price_is_NaN:
  "item_price comma_price_item = NaN"
  by code_simp

text \<open>
  C6, amended: for every upstream price container whose selected price string cannot be
  parsed after the applicable stripping rule, the Price Normalizer yields the Number
  \<open>NaN\<close>, without raising an error; the Candidate Selector keeps no product of that price.
\<close>

theorem unparseable_price_is_NaN:
  assumes "price_text item = Some s" and "parseFloat s = NaN"
  shows "item_price item = NaN
       \<and> (product.price (p::product) = item_price item
            \<longrightarrow> p \<notin> set (validProducts allProducts))"
proof -
  have n: "item_price item = NaN"
  proof (cases "product_price_info item")
    case (Some info)
    with assms have "parseFloat (stripped info) = NaN"
      by (simp add: price_text_def)
    with Some show ?thesis
      by (auto simp: item_price_def stripped_def Let_def split: if_splits)
  next
    case None
    with assms show ?thesis
      by (auto simp: item_price_def price_text_def parseFloat_min_price_def
          split: option.splits if_splits)
  qed
  have "p \<notin> set (validProducts allProducts)" if "product.price p = NaN"
  proof
    assume "p \<in> set (validProducts allProducts)"
    from validProducts_price [OF this] that show False
      by (simp add: js_gt_def)
  qed
  with n show ?thesis by simp
qed

theorem unparseable_price_is_NaN_witness:
  "price_text comma_price_item = Some (js ''$1299'')
   \<and> parseFloat (js ''$1299'') = NaN
   \<and> item_price comma_price_item = NaN
   \<and> listing 1000 40 ''home decor'' \<lparr> product.price := item_price comma_price_item \<rparr>
       \<notin> set (validProducts
                [listing 1000 40 ''home decor'' \<lparr> product.price := item_price comma_price_item \<rparr>])"
proof -
  have i: "price_text comma_price_item = Some (js ''$1299'')"
    by code_simp
  have s: "parseFloat (js ''$1299'') = NaN"
    by code_simp
  have q: "product.price
             (listing 1000 40 ''home decor'' \<lparr> product.price := item_price comma_price_item \<rparr>)
           = item_price comma_price_item"
    by simp
  from unparseable_price_is_NaN [OF i s,
      of "listing 1000 40 ''home decor'' \<lparr> product.price := item_price comma_price_item \<rparr>"
         "[listing 1000 40 ''home decor'' \<lparr> product.price := item_price comma_price_item \<rparr>]"]
    i s q
  show ?thesis by blast
qed




text \<open>
  C10, as stated: a request with the truthy price \<open>10\<close> and a title that is one unpaired
  surrogate is answered with the caught \<open>URIError\<close>, not with a success.
\<close>

theorem unpaired_surrogate_title_rejected:
  "analyze_product surrogate_request = Rejected (Caught URIError)"
  by code_simp

lemma getSourcingRecommendations_cases:
  "(case encodeURIComponent n of
      Inl e \<Rightarrow> getSourcingRecommendations n = Inl e
    | Inr q \<Rightarrow> \<exists>c. getSourcingRecommendations n = Inr c
                 \<and> map supplier c = [js ''AliExpress'', js ''CJ Dropshipping'', js ''Spocket'']
                 \<and> map url c = [js ''https://www.aliexpress.com/wholesale?SearchText='' @ q,
                                js ''https://cjdropshipping.com/search?keyword='' @ q,
                                js ''https://www.spocket.co/search/'' @ q])"
  by (simp add: getSourcingRecommendations_def split: sum.splits)

text \<open>
  C10, amended: the analyze-product entry point answers \<open>Invalid product data\<close> whenever
  the product is absent or its price is absent, \<open>0\<close> or \<open>NaN\<close>; for a truthy price and a
  title that \<open>encodeURIComponent\<close> accepts it answers with \<open>calculateMargins(price)\<close> and
  the three-entry sourcing catalogue of the title; for a truthy price and a title that
  \<open>encodeURIComponent\<close> rejects it answers with the message of the caught error.
\<close>

theorem analyze_product_outcome:
  "((\<forall>p. Option.bind product request_product.price = Some p \<longrightarrow> \<not> truthy p)
      \<longrightarrow> analyze_product product = Rejected (Message (js ''Invalid product data'')))
   \<and> (Option.bind product request_product.price = Some p \<and> truthy p
        \<and> encodeURIComponent (requested_title product) = Inr q
      \<longrightarrow> getSourcingRecommendations (requested_title product) = Inr (sourcing_of (analyze_product product))
          \<and> analyze_product product
              = Analysed (calculateMargins p) (sourcing_of (analyze_product product))
          \<and> map supplier (sourcing_of (analyze_product product))
              = [js ''AliExpress'', js ''CJ Dropshipping'', js ''Spocket'']
          \<and> map url (sourcing_of (analyze_product product))
              = [js ''https://www.aliexpress.com/wholesale?SearchText='' @ q,
                 js ''https://cjdropshipping.com/search?keyword='' @ q,
                 js ''https://www.spocket.co/search/'' @ q])
   \<and> (Option.bind product request_product.price = Some p \<and> truthy p
        \<and> encodeURIComponent (requested_title product) = Inl e
      \<longrightarrow> analyze_product product = Rejected (Caught e))"
proof (intro conjI impI)
  assume "\<forall>p. Option.bind product request_product.price = Some p \<longrightarrow> \<not> truthy p"
  then show "analyze_product product = Rejected (Message (js ''Invalid product data''))"
    by (simp add: analyze_product_def split: option.splits)
next
  assume a: "Option.bind product request_product.price = Some p \<and> truthy p
        \<and> encodeURIComponent (requested_title product) = Inr q"
  with getSourcingRecommendations_cases [of "requested_title product"]
  obtain c where c: "getSourcingRecommendations (requested_title product) = Inr c"
    and s: "map supplier c = [js ''AliExpress'', js ''CJ Dropshipping'', js ''Spocket'']"
    and u: "map url c = [js ''https://www.aliexpress.com/wholesale?SearchText='' @ q,
                         js ''https://cjdropshipping.com/search?keyword='' @ q,
                         js ''https://www.spocket.co/search/'' @ q]"
    by auto
  from a c have r: "analyze_product product = Analysed (calculateMargins p) c"
    by (simp add: analyze_product_def requested_title_def Let_def)
  then have "sourcing_of (analyze_product product) = c" by simp
  with r c s u show
    "getSourcingRecommendations (requested_title product) = Inr (sourcing_of (analyze_product product))"
    "analyze_product product = Analysed (calculateMargins p) (sourcing_of (analyze_product product))"
    "map supplier (sourcing_of (analyze_product product))
              = [js ''AliExpress'', js ''CJ Dropshipping'', js ''Spocket'']"
    "map url (sourcing_of (analyze_product product))
              = [js ''https://www.aliexpress.com/wholesale?SearchText='' @ q,
                 js ''https://cjdropshipping.com/search?keyword='' @ q,
                 js ''https://www.spocket.co/search/'' @ q]"
    by simp_all
next
  assume a: "Option.bind product request_product.price = Some p \<and> truthy p
        \<and> encodeURIComponent (requested_title product) = Inl e"
  with getSourcingRecommendations_cases [of "requested_title product"]
  have "getSourcingRecommendations (requested_title product) = Inl e" by simp
  with a show "analyze_product product = Rejected (Caught e)"
    by (simp add: analyze_product_def requested_title_def Let_def)
qed


theorem analyze_product_outcome_witness:
  "Option.bind free_request request_product.price = Some (Fin 0) \<and> \<not> truthy (Fin 0)
   \<and> analyze_product free_request = Rejected (Message (js ''Invalid product data''))
   \<and> Option.bind lamp_request request_product.price = Some (Fin 100) \<and> truthy (Fin 100)
   \<and> encodeURIComponent (requested_title lamp_request) = Inr (js ''LED%20lamp'')
   \<and> analyze_product lamp_request
       = Analysed (calculateMargins (Fin 100)) (sourcing_of (analyze_product lamp_request))
   \<and> map supplier (sourcing_of (analyze_product lamp_request))
       = [js ''AliExpress'', js ''CJ Dropshipping'', js ''Spocket'']
   \<and> Option.bind surrogate_request request_product.price = Some (Fin 10) \<and> truthy (Fin 10)
   \<and> encodeURIComponent (requested_title surrogate_request) = Inl URIError
   \<and> analyze_product surrogate_request = Rejected (Caught URIError)"
proof -
  have z: "Option.bind free_request request_product.price = Some (Fin 0)"
    by (simp add: free_request_def)
  have nt: "\<not> truthy (Fin 0)" by simp
  have f: "\<forall>p. Option.bind free_request request_product.price = Some p \<longrightarrow> \<not> truthy p"
    by (simp add: z)
  have l: "Option.bind lamp_request request_product.price = Some (Fin 100)"
    by (simp add: lamp_request_def)
  have le: "encodeURIComponent (requested_title lamp_request) = Inr (js ''LED%20lamp'')"
    by code_simp
  have s: "Option.bind surrogate_request request_product.price = Some (Fin 10)"
    by (simp add: surrogate_request_def)
  have se: "encodeURIComponent (requested_title surrogate_request) = Inl URIError"
    by code_simp
  have t: "truthy (Fin 100)" "truthy (Fin 10)" by simp_all
  have a: "analyze_product free_request = Rejected (Message (js ''Invalid product data''))"
    using analyze_product_outcome [of free_request "Fin 0" "[]" URIError, THEN conjunct1] f
    by (rule mp)
  have b: "analyze_product lamp_request
             = Analysed (calculateMargins (Fin 100)) (sourcing_of (analyze_product lamp_request))
           \<and> map supplier (sourcing_of (analyze_product lamp_request))
             = [js ''AliExpress'', js ''CJ Dropshipping'', js ''Spocket'']"
    using analyze_product_outcome [of lamp_request "Fin 100" "js ''LED%20lamp''" URIError]
      l le t(1) by (simp only: simp_thms)
  have c: "analyze_product surrogate_request = Rejected (Caught URIError)"
    using analyze_product_outcome [of surrogate_request "Fin 10" "[]" URIError]
      s se t(2) by (simp only: simp_thms)
  show ?thesis
    by (intro conjI z nt a l t le s se c b [THEN conjunct1] b [THEN conjunct2])
qed

section \<open>Niche Aggregator: one summary per category\<close>



lemma set_first_occurrences [simp]: "set (first_occurrences xs) = set xs"
  by (simp add: first_occurrences_def)

lemma distinct_first_occurrences [simp]: "distinct (first_occurrences xs)"
  by (simp add: first_occurrences_def)




















end
